theory Spec2Isabelle
  imports Complex_Main
begin

section \<open>The LineLink example of PRISM\<close>

text \<open>
  \<open>LineLink\<close> (\<^verbatim>\<open>docs/source/user/scripts/line_link.py\<close>) wraps the straight line
  \<open>f(x) = A + B\<cdot>x\<close> as a \<open>ModelLink\<close> subclass. The class has a constructor that
  delegates to the base class, two methods returning literal dictionaries, and two
  methods evaluating NumPy expressions:
  \<^verbatim>\<open>
    def call_model(self, emul_i, par_set, data_idx):
        vals = par_set['A']+np.array(data_idx)*par_set['B']
        return(vals)

    def get_md_var(self, emul_i, par_set, data_idx):
        return(1e-4*np.ones_like(data_idx))
  \<close>

  Conventions of the embedding.
  \<^item> A Python \<open>int\<close> is an unbounded integer, a Python \<open>float\<close> is a binary64 value
    (\<open>f64\<close>): a finite value given by the rational it denotes, an infinity or NaN.
    Every float operation rounds to nearest, ties to even. The two zeros are not
    told apart.
  \<^item> A value that may reach the methods is an int, a float or a string (\<open>pyval\<close>); a
    string stands for the non-numeric inputs.
  \<^item> A coordinate sequence is a flat Python list; arrays are one-dimensional, of dtype
    \<open>int64\<close>, \<open>uint64\<close>, \<open>float64\<close>, \<open>object\<close> or a string dtype.
  \<^item> The NumPy operations follow NumPy 1.x, which the file was written for, on a
    platform whose default integer is 64 bits wide: integer arrays wrap around
    silently, a Python scalar takes part in the promotion by its value, and an
    operation with an object operand applies the Python operator to each element.
  \<^item> Memory is unbounded (no \<open>MemoryError\<close>); warnings are not modelled.
  \<^item> A dictionary is a map; \<open>d[k]\<close> raises \<open>KeyError\<close> for a missing key.
  \<^item> An exception is a value \<open>Inl e\<close> of the result type \<open>py_error + 'a\<close>.
\<close>

subsection \<open>Binary64 arithmetic\<close>

datatype f64 = Fin rat | PInf | NInf | NaN

definition pow2 :: "int \<Rightarrow> rat" where
  "pow2 k = (if 0 \<le> k then 2 ^ nat k else 1 / 2 ^ nat (- k))"

text \<open>The number of binary digits of a positive integer (\<open>int.bit_length\<close>).\<close>

function bit_length :: "int \<Rightarrow> int" where
  "bit_length n = (if n \<le> 0 then 0 else 1 + bit_length (n div 2))"
  by pat_completeness auto
termination
  by (relation "measure nat") auto

declare bit_length.simps [simp del]

text \<open>For \<open>a > 0\<close>, the exponent \<open>e\<close> with \<open>2^e \<le> a < 2^(e+1)\<close>.\<close>

definition ilog2 :: "rat \<Rightarrow> int" where
  "ilog2 a = (if 1 \<le> a then bit_length \<lfloor>a\<rfloor> - 1 else - bit_length (\<lceil>1 / a\<rceil> - 1))"

definition round_half_even :: "rat \<Rightarrow> int" where
  "round_half_even m =
     (let f = \<lfloor>m\<rfloor>; r = m - of_int f
      in if r < 1 / 2 then f else if 1 / 2 < r then f + 1 else if even f then f else f + 1)"

text \<open>
  Rounding at exponent \<open>e\<close>: the significand has 53 bits, so the spacing of the
  floats is \<open>2^(e - 52)\<close>; a result of \<open>2^1024\<close> or more is an infinity.
\<close>

definition round_with :: "int \<Rightarrow> rat \<Rightarrow> f64" where
  "round_with e q =
     (let m = round_half_even (\<bar>q\<bar> / pow2 (e - 52))
      in if 1024 \<le> e \<or> (e = 1023 \<and> m = 2 ^ 53) then (if 0 < q then PInf else NInf)
         else Fin ((if 0 < q then 1 else - 1) * of_int m * pow2 (e - 52)))"

text \<open>The binary64 value nearest to a rational; below \<open>2^(-1022)\<close> the spacing is
  that of the subnormal numbers.\<close>

definition round_f64 :: "rat \<Rightarrow> f64" where
  "round_f64 q = (if q = 0 then Fin 0 else round_with (max (ilog2 \<bar>q\<bar>) (- 1022)) q)"

fun f64_mul :: "f64 \<Rightarrow> f64 \<Rightarrow> f64" where
  "f64_mul (Fin a) (Fin b) = round_f64 (a * b)"
| "f64_mul NaN _ = NaN"
| "f64_mul _ NaN = NaN"
| "f64_mul (Fin a) PInf = (if a = 0 then NaN else if 0 < a then PInf else NInf)"
| "f64_mul (Fin a) NInf = (if a = 0 then NaN else if 0 < a then NInf else PInf)"
| "f64_mul PInf (Fin b) = (if b = 0 then NaN else if 0 < b then PInf else NInf)"
| "f64_mul NInf (Fin b) = (if b = 0 then NaN else if 0 < b then NInf else PInf)"
| "f64_mul PInf PInf = PInf"
| "f64_mul PInf NInf = NInf"
| "f64_mul NInf PInf = NInf"
| "f64_mul NInf NInf = PInf"

fun f64_add :: "f64 \<Rightarrow> f64 \<Rightarrow> f64" where
  "f64_add (Fin a) (Fin b) = round_f64 (a + b)"
| "f64_add NaN _ = NaN"
| "f64_add _ NaN = NaN"
| "f64_add (Fin a) PInf = PInf"
| "f64_add (Fin a) NInf = NInf"
| "f64_add PInf (Fin b) = PInf"
| "f64_add NInf (Fin b) = NInf"
| "f64_add PInf PInf = PInf"
| "f64_add PInf NInf = NaN"
| "f64_add NInf PInf = NaN"
| "f64_add NInf NInf = NInf"

subsection \<open>Python values and the Python operators\<close>

datatype py_error = KeyError string | TypeError | OverflowError

datatype pyval = PyInt int | PyFloat f64 | PyStr string

datatype binop = Mul | Add

primrec int_op :: "binop \<Rightarrow> int \<Rightarrow> int \<Rightarrow> int" where
  "int_op Mul a b = a * b"
| "int_op Add a b = a + b"

primrec f64_op :: "binop \<Rightarrow> f64 \<Rightarrow> f64 \<Rightarrow> f64" where
  "f64_op Mul x y = f64_mul x y"
| "f64_op Add x y = f64_add x y"

text \<open>\<open>float(n)\<close> for an int, as the mixed operators compute it: the nearest float,
  or \<open>OverflowError\<close> (int too large to convert to float).\<close>

definition int_to_float :: "int \<Rightarrow> py_error + f64" where
  "int_to_float n =
     (if 2 ^ 1024 \<le> \<bar>n\<bar> then Inl OverflowError
      else case round_f64 (of_int n) of Fin r \<Rightarrow> Inr (Fin r) | _ \<Rightarrow> Inl OverflowError)"

text \<open>\<open>s * n\<close> for a string and an int: the count has to fit \<open>Py_ssize_t\<close>.\<close>

definition str_repeat :: "string \<Rightarrow> int \<Rightarrow> py_error + pyval" where
  "str_repeat s n =
     (if n < - (2 ^ 63) \<or> 2 ^ 63 \<le> n then Inl OverflowError
      else Inr (PyStr (concat (replicate (nat n) s))))"

text \<open>\<open>x * y\<close> and \<open>x + y\<close> on Python objects.\<close>

fun py_op :: "binop \<Rightarrow> pyval \<Rightarrow> pyval \<Rightarrow> py_error + pyval" where
  "py_op opr (PyInt a) (PyInt b) = Inr (PyInt (int_op opr a b))"
| "py_op opr (PyFloat x) (PyFloat y) = Inr (PyFloat (f64_op opr x y))"
| "py_op opr (PyInt a) (PyFloat y) =
     (case int_to_float a of Inl e \<Rightarrow> Inl e | Inr x \<Rightarrow> Inr (PyFloat (f64_op opr x y)))"
| "py_op opr (PyFloat x) (PyInt b) =
     (case int_to_float b of Inl e \<Rightarrow> Inl e | Inr y \<Rightarrow> Inr (PyFloat (f64_op opr x y)))"
| "py_op Mul (PyStr s) (PyInt n) = str_repeat s n"
| "py_op Mul (PyInt n) (PyStr s) = str_repeat s n"
| "py_op Add (PyStr s) (PyStr t) = Inr (PyStr (s @ t))"
| "py_op _ _ _ = Inl TypeError"

subsection \<open>The NumPy operations the methods call\<close>

text \<open>
  A one-dimensional array. An integer array holds values of its range. \<open>ObjArray\<close>
  holds Python objects. \<open>StrArray\<close> is the array NumPy builds when some element of
  the list is a string; its elements are kept as they were given, since only their
  being strings matters to the program.
\<close>

datatype ndarray =
    Int64Array "int list"
  | UInt64Array "int list"
  | Float64Array "f64 list"
  | ObjArray "pyval list"
  | StrArray "pyval list"

primrec is_str :: "pyval \<Rightarrow> bool" where
  "is_str (PyInt n) = False"
| "is_str (PyFloat x) = False"
| "is_str (PyStr s) = True"

primrec is_int64 :: "pyval \<Rightarrow> bool" where
  "is_int64 (PyInt n) = (- (2 ^ 63) \<le> n \<and> n < 2 ^ 63)"
| "is_int64 (PyFloat x) = False"
| "is_int64 (PyStr s) = False"

primrec is_uint64 :: "pyval \<Rightarrow> bool" where
  "is_uint64 (PyInt n) = (2 ^ 63 \<le> n \<and> n < 2 ^ 64)"
| "is_uint64 (PyFloat x) = False"
| "is_uint64 (PyStr s) = False"

text \<open>An int that fits neither \<open>int64\<close> nor \<open>uint64\<close>: NumPy keeps it as an object.\<close>

primrec is_big :: "pyval \<Rightarrow> bool" where
  "is_big (PyInt n) = (n < - (2 ^ 63) \<or> 2 ^ 64 \<le> n)"
| "is_big (PyFloat x) = False"
| "is_big (PyStr s) = False"

primrec the_int :: "pyval \<Rightarrow> int" where
  "the_int (PyInt n) = n"
| "the_int (PyFloat x) = 0"
| "the_int (PyStr s) = 0"

text \<open>The conversion of a number of at most 64 bits to \<open>float64\<close>.\<close>

primrec to_f64 :: "pyval \<Rightarrow> f64" where
  "to_f64 (PyInt n) = round_f64 (of_int n)"
| "to_f64 (PyFloat x) = x"
| "to_f64 (PyStr s) = NaN"

text \<open>
  \<open>np.array(lst)\<close>. Each element has a dtype of its own (a string dtype, \<open>float64\<close>,
  \<open>int64\<close>, \<open>uint64\<close> for an int from \<open>2^63\<close> that fits, \<open>object\<close> for an int that
  does not) and the array has their common dtype: a string dtype if there is a
  string, else \<open>object\<close> if there is one, else the integer dtype if all have the
  same one, else \<open>float64\<close> (also for \<open>int64\<close> with \<open>uint64\<close>, and for the empty
  list).
\<close>

definition np_array :: "pyval list \<Rightarrow> ndarray" where
  "np_array lst =
     (if list_ex is_str lst then StrArray lst
      else if list_ex is_big lst then ObjArray lst
      else if lst \<noteq> [] \<and> list_all is_int64 lst then Int64Array (map the_int lst)
      else if lst \<noteq> [] \<and> list_all is_uint64 lst then UInt64Array (map the_int lst)
      else Float64Array (map to_f64 lst))"

text \<open>\<open>np.ones_like(lst)\<close>: the list is converted as by \<open>np.array\<close>; the result has
  its shape and dtype, every element being the one of that dtype.\<close>

definition np_ones_like :: "pyval list \<Rightarrow> ndarray" where
  "np_ones_like lst =
     (case np_array lst of
        Int64Array ns \<Rightarrow> Int64Array (map (\<lambda>_. 1) ns)
      | UInt64Array ns \<Rightarrow> UInt64Array (map (\<lambda>_. 1) ns)
      | Float64Array xs \<Rightarrow> Float64Array (map (\<lambda>_. Fin 1) xs)
      | ObjArray vs \<Rightarrow> ObjArray (map (\<lambda>_. PyInt 1) vs)
      | StrArray vs \<Rightarrow> StrArray (map (\<lambda>_. PyStr ''1'') vs))"

text \<open>\<open>arr.tolist()\<close>: the elements as Python objects.\<close>

primrec tolist :: "ndarray \<Rightarrow> pyval list" where
  "tolist (Int64Array ns) = map PyInt ns"
| "tolist (UInt64Array ns) = map PyInt ns"
| "tolist (Float64Array xs) = map PyFloat xs"
| "tolist (ObjArray vs) = vs"
| "tolist (StrArray vs) = vs"

definition wrap_int64 :: "int \<Rightarrow> int" where
  "wrap_int64 n = (n + 2 ^ 63) mod 2 ^ 64 - 2 ^ 63"

definition wrap_uint64 :: "int \<Rightarrow> int" where
  "wrap_uint64 n = n mod 2 ^ 64"

text \<open>The operand order of an elementwise operation: the scalar is the left operand
  in \<open>a + arr\<close> and the right one in \<open>arr * b\<close>.\<close>

definition oriented :: "bool \<Rightarrow> ('a \<Rightarrow> 'a \<Rightarrow> 'b) \<Rightarrow> 'a \<Rightarrow> 'a \<Rightarrow> 'b" where
  "oriented scalar_left f x s = (if scalar_left then f s x else f x s)"

text \<open>The object loop: the Python operator on each element in turn; the first
  exception ends it.\<close>

primrec obj_loop :: "binop \<Rightarrow> bool \<Rightarrow> pyval \<Rightarrow> pyval list \<Rightarrow> py_error + pyval list" where
  "obj_loop opr scalar_left s [] = Inr []"
| "obj_loop opr scalar_left s (x # xs) =
     (case oriented scalar_left (py_op opr) x s of
        Inl e \<Rightarrow> Inl e
      | Inr y \<Rightarrow>
          (case obj_loop opr scalar_left s xs of
             Inl e \<Rightarrow> Inl e
           | Inr ys \<Rightarrow> Inr (y # ys)))"

text \<open>
  The numeric loops, for operands none of which is an object. A string operand has
  no loop (\<open>UFuncTypeError\<close>, a \<open>TypeError\<close>). A float operand makes the result
  \<open>float64\<close>. An int scalar leaves an integer array its dtype when its value fits
  it; otherwise the common dtype of \<open>int64\<close> and \<open>uint64\<close> is \<open>float64\<close>.
\<close>

fun num_loop :: "binop \<Rightarrow> bool \<Rightarrow> ndarray \<Rightarrow> pyval \<Rightarrow> py_error + ndarray" where
  "num_loop opr sl (StrArray vs) s = Inl TypeError"
| "num_loop opr sl (ObjArray vs) s = Inl TypeError"
| "num_loop opr sl arr (PyStr t) = Inl TypeError"
| "num_loop opr sl (Float64Array xs) s =
     Inr (Float64Array (map (\<lambda>x. oriented sl (f64_op opr) x (to_f64 s)) xs))"
| "num_loop opr sl (Int64Array ns) (PyFloat y) =
     Inr (Float64Array (map (\<lambda>n. oriented sl (f64_op opr) (to_f64 (PyInt n)) y) ns))"
| "num_loop opr sl (UInt64Array ns) (PyFloat y) =
     Inr (Float64Array (map (\<lambda>n. oriented sl (f64_op opr) (to_f64 (PyInt n)) y) ns))"
| "num_loop opr sl (Int64Array ns) (PyInt b) =
     (if is_int64 (PyInt b)
      then Inr (Int64Array (map (\<lambda>n. wrap_int64 (oriented sl (int_op opr) n b)) ns))
      else Inr (Float64Array
        (map (\<lambda>n. oriented sl (f64_op opr) (to_f64 (PyInt n)) (to_f64 (PyInt b))) ns)))"
| "num_loop opr sl (UInt64Array ns) (PyInt b) =
     (if 0 \<le> b
      then Inr (UInt64Array (map (\<lambda>n. wrap_uint64 (oriented sl (int_op opr) n b)) ns))
      else Inr (Float64Array
        (map (\<lambda>n. oriented sl (f64_op opr) (to_f64 (PyInt n)) (to_f64 (PyInt b))) ns)))"

primrec is_obj_array :: "ndarray \<Rightarrow> bool" where
  "is_obj_array (Int64Array ns) = False"
| "is_obj_array (UInt64Array ns) = False"
| "is_obj_array (Float64Array xs) = False"
| "is_obj_array (ObjArray vs) = True"
| "is_obj_array (StrArray vs) = False"

text \<open>
  A binary ufunc on an array and a Python scalar. With an object operand (an object
  array, or an int scalar beyond 64 bits) the object loop runs; on a string array
  each element is then a string, for which \<open>*\<close> with such an int raises
  \<open>OverflowError\<close> and \<open>+\<close> raises \<open>TypeError\<close>.
\<close>

definition ufunc :: "binop \<Rightarrow> bool \<Rightarrow> ndarray \<Rightarrow> pyval \<Rightarrow> py_error + ndarray" where
  "ufunc opr scalar_left arr s =
     (if is_obj_array arr \<or> is_big s then
        (case arr of
           StrArray vs \<Rightarrow>
             (if vs = [] then Inr (ObjArray [])
              else Inl (case opr of Mul \<Rightarrow> OverflowError | Add \<Rightarrow> TypeError))
         | _ \<Rightarrow>
             (case obj_loop opr scalar_left s (tolist arr) of
                Inl e \<Rightarrow> Inl e
              | Inr ys \<Rightarrow> Inr (ObjArray ys)))
      else num_loop opr scalar_left arr s)"

text \<open>\<open>arr * b\<close>, \<open>c * arr\<close> and \<open>a + arr\<close> for an array and a Python scalar.\<close>

definition np_multiply :: "ndarray \<Rightarrow> pyval \<Rightarrow> py_error + ndarray" where
  "np_multiply arr b = ufunc Mul False arr b"

definition np_rmultiply :: "pyval \<Rightarrow> ndarray \<Rightarrow> py_error + ndarray" where
  "np_rmultiply c arr = ufunc Mul True arr c"

definition np_radd :: "pyval \<Rightarrow> ndarray \<Rightarrow> py_error + ndarray" where
  "np_radd a arr = ufunc Add True arr a"

text \<open>\<open>d[k]\<close> on a dictionary.\<close>

definition getitem :: "(string \<rightharpoonup> 'v) \<Rightarrow> string \<Rightarrow> py_error + 'v" where
  "getitem d k = (case d k of None \<Rightarrow> Inl (KeyError k) | Some v \<Rightarrow> Inr v)"

subsection \<open>The methods of LineLink\<close>

text \<open>
  \<open>__init__(self, *args, **kwargs)\<close>: after \<open>pass\<close>, the only statement is
  \<open>super().__init__(*args, **kwargs)\<close>. \<open>ModelLink\<close> is not part of the file, so its
  constructor is a parameter: it takes the object under construction, the positional
  and the keyword arguments, and returns the initialised object or raises.
\<close>

definition LineLink_init ::
  "('s \<Rightarrow> 'a list \<Rightarrow> (string \<times> 'a) list \<Rightarrow> py_error + 's) \<Rightarrow>
   's \<Rightarrow> 'a list \<Rightarrow> (string \<times> 'a) list \<Rightarrow> py_error + 's" where
  "LineLink_init ModelLink_init self args kwargs = ModelLink_init self args kwargs"

text \<open>The two literal dictionaries. A value of either is a Python list of numbers,
  each read as the rational its literal denotes.\<close>

definition get_default_model_parameters :: "'s \<Rightarrow> (string \<rightharpoonup> rat list)" where
  "get_default_model_parameters self =
     [''A'' \<mapsto> [-10, 10, 3],
      ''B'' \<mapsto> [0, 5, 1.5]]"

definition get_default_model_data :: "'s \<Rightarrow> (rat \<rightharpoonup> rat list)" where
  "get_default_model_data self =
     [1 \<mapsto> [4.5, 0.1],
      2.5 \<mapsto> [6.8, 0.1],
      -2 \<mapsto> [0, 0.1]]"

text \<open>
  \<open>call_model\<close>. Python evaluates the operands of
  \<open>par_set['A'] + np.array(data_idx) * par_set['B']\<close> from left to right, then the
  product, then the sum; the first exception ends the call.
\<close>

definition call_model ::
  "'s \<Rightarrow> int \<Rightarrow> (string \<rightharpoonup> pyval) \<Rightarrow> pyval list \<Rightarrow> py_error + ndarray" where
  "call_model self emul_i par_set data_idx =
     (case getitem par_set ''A'' of
        Inl e \<Rightarrow> Inl e
      | Inr a \<Rightarrow>
          (let arr = np_array data_idx in
           case getitem par_set ''B'' of
             Inl e \<Rightarrow> Inl e
           | Inr b \<Rightarrow>
               (case np_multiply arr b of
                  Inl e \<Rightarrow> Inl e
                | Inr scaled \<Rightarrow> np_radd a scaled)))"

text \<open>\<open>get_md_var\<close>: \<open>1e-4 * np.ones_like(data_idx)\<close>. The literal \<open>1e-4\<close> is the float
  nearest to \<open>1/10000\<close>.\<close>

definition get_md_var ::
  "'s \<Rightarrow> int \<Rightarrow> (string \<rightharpoonup> pyval) \<Rightarrow> pyval list \<Rightarrow> py_error + ndarray" where
  "get_md_var self emul_i par_set data_idx =
     np_rmultiply (PyFloat (round_f64 (1 / 10000))) (np_ones_like data_idx)"

subsection \<open>The methods on a store of objects\<close>

text \<open>
  Python passes references. To say what a call does to the objects it is given, the
  same two method bodies are written over a store: a list of objects, an address
  being an index. Each operation of the bodies is an action on the store:
  \<open>par_set[k]\<close> reads the dictionary; \<open>np.array\<close>, \<open>np.ones_like\<close>, \<open>*\<close> and \<open>+\<close>
  read their operands and allocate the array they return. An action yields \<open>None\<close>
  when a reference is not to the kind of object the framework passes (a dictionary
  for \<open>par_set\<close>, a list for \<open>data_idx\<close>).
\<close>

datatype obj =
    DictObj "string \<rightharpoonup> pyval"
  | ListObj "pyval list"
  | ArrayObj ndarray
  | InstanceObj "string \<rightharpoonup> pyval"

type_synonym heap = "obj list"

type_synonym 'a action = "heap \<Rightarrow> ((py_error + 'a) \<times> heap) option"

text \<open>Sequencing: an exception ends the sequence, keeping the store as it is then.\<close>

definition h_bind :: "'a action \<Rightarrow> ('a \<Rightarrow> 'b action) \<Rightarrow> 'b action" where
  "h_bind m f h =
     (case m h of
        None \<Rightarrow> None
      | Some (Inl e, h1) \<Rightarrow> Some (Inl e, h1)
      | Some (Inr x, h1) \<Rightarrow> f x h1)"

definition h_alloc :: "obj \<Rightarrow> nat action" where
  "h_alloc ob h = Some (Inr (length h), h @ [ob])"

definition h_raise_or_alloc :: "py_error + ndarray \<Rightarrow> nat action" where
  "h_raise_or_alloc r h =
     (case r of Inl e \<Rightarrow> Some (Inl e, h) | Inr arr \<Rightarrow> h_alloc (ArrayObj arr) h)"

definition h_getitem :: "nat \<Rightarrow> string \<Rightarrow> pyval action" where
  "h_getitem d k h =
     (if d < length h
      then (case h ! d of DictObj m \<Rightarrow> Some (getitem m k, h) | _ \<Rightarrow> None)
      else None)"

definition h_np_array :: "nat \<Rightarrow> nat action" where
  "h_np_array l h =
     (if l < length h
      then (case h ! l of ListObj lst \<Rightarrow> h_alloc (ArrayObj (np_array lst)) h | _ \<Rightarrow> None)
      else None)"

definition h_np_ones_like :: "nat \<Rightarrow> nat action" where
  "h_np_ones_like l h =
     (if l < length h
      then (case h ! l of ListObj lst \<Rightarrow> h_alloc (ArrayObj (np_ones_like lst)) h | _ \<Rightarrow> None)
      else None)"

definition h_np_multiply :: "nat \<Rightarrow> pyval \<Rightarrow> nat action" where
  "h_np_multiply a b h =
     (if a < length h
      then (case h ! a of ArrayObj arr \<Rightarrow> h_raise_or_alloc (np_multiply arr b) h | _ \<Rightarrow> None)
      else None)"

definition h_np_rmultiply :: "pyval \<Rightarrow> nat \<Rightarrow> nat action" where
  "h_np_rmultiply c a h =
     (if a < length h
      then (case h ! a of ArrayObj arr \<Rightarrow> h_raise_or_alloc (np_rmultiply c arr) h | _ \<Rightarrow> None)
      else None)"

definition h_np_radd :: "pyval \<Rightarrow> nat \<Rightarrow> nat action" where
  "h_np_radd x a h =
     (if a < length h
      then (case h ! a of ArrayObj arr \<Rightarrow> h_raise_or_alloc (np_radd x arr) h | _ \<Rightarrow> None)
      else None)"

text \<open>The two bodies, operation by operation, in Python's evaluation order.\<close>

definition call_model_h :: "nat \<Rightarrow> int \<Rightarrow> nat \<Rightarrow> nat \<Rightarrow> nat action" where
  "call_model_h self emul_i par_set data_idx =
     h_bind (h_getitem par_set ''A'') (\<lambda>a.
     h_bind (h_np_array data_idx) (\<lambda>arr.
     h_bind (h_getitem par_set ''B'') (\<lambda>b.
     h_bind (h_np_multiply arr b) (\<lambda>scaled.
     h_np_radd a scaled))))"

definition get_md_var_h :: "nat \<Rightarrow> int \<Rightarrow> nat \<Rightarrow> nat \<Rightarrow> nat action" where
  "get_md_var_h self emul_i par_set data_idx =
     h_bind (h_np_ones_like data_idx) (\<lambda>ones.
     h_np_rmultiply (PyFloat (round_f64 (1 / 10000))) ones)"

text \<open>An action extends the store when every store it returns is the one it was
  given with objects added at the end.\<close>

definition extends :: "'a action \<Rightarrow> bool" where
  "extends m = (\<forall>h r h'. m h = Some (r, h') \<longrightarrow> (\<exists>new. h' = h @ new))"

section \<open>Properties\<close>

subsection \<open>Evaluating binary64 arithmetic\<close>

lemma floor_rat_numeral_div:
  "\<lfloor>(numeral a :: rat) / numeral b\<rfloor> = numeral a div numeral b"
  by (metis floor_divide_of_int_eq of_int_numeral)

lemma ceiling_rat_numeral_div:
  "\<lceil>(numeral a :: rat) / numeral b\<rceil> = - ((- numeral a) div numeral b)"
  by (metis ceiling_divide_eq_div of_int_numeral)

lemmas f64_eval = round_f64_def round_with_def ilog2_def pow2_def round_half_even_def
  bit_length.simps Let_def floor_rat_numeral_div ceiling_rat_numeral_div

lemma round_f64_1e_4:
  "round_f64 (1 / 10000) = Fin (7378697629483821 / 73786976294838206464)"
  by (simp add: f64_eval)

lemma round_f64_1e_4_id:
  "round_f64 (7378697629483821 / 73786976294838206464)
     = Fin (7378697629483821 / 73786976294838206464)"
  by (simp add: f64_eval)

lemma round_f64_one: "round_f64 1 = Fin 1"
  by (simp add: f64_eval)

lemma f64_mul_1e_4_one:
  "f64_mul (round_f64 (1 / 10000)) (Fin 1) = round_f64 (1 / 10000)"
  by (simp add: round_f64_1e_4 round_f64_1e_4_id)

lemma int_to_float_one: "int_to_float 1 = Inr (Fin 1)"
  by (simp add: int_to_float_def round_f64_one)

subsection \<open>Auxiliary facts about the NumPy operations\<close>

lemma wrap_int64_id: "- (2 ^ 63) \<le> n \<Longrightarrow> n < 2 ^ 63 \<Longrightarrow> wrap_int64 n = n"
  by (simp add: wrap_int64_def)

lemma obj_loop_ones:
  "obj_loop Mul True (PyFloat (round_f64 (1 / 10000))) (map (\<lambda>_. PyInt 1) vs)
     = Inr (map (\<lambda>_. PyFloat (round_f64 (1 / 10000))) vs)"
  by (induction vs) (simp_all add: oriented_def int_to_float_one f64_mul_1e_4_one)

lemma np_array_cases:
  "\<not> list_ex is_str lst \<Longrightarrow>
   np_array lst = ObjArray lst
   \<or> np_array lst = Int64Array (map the_int lst)
   \<or> np_array lst = UInt64Array (map the_int lst)
   \<or> np_array lst = Float64Array (map to_f64 lst)"
  by (simp add: np_array_def)

lemma get_md_var_numeric:
  assumes "\<not> list_ex is_str lst"
  shows "\<exists>arr. np_rmultiply (PyFloat (round_f64 (1 / 10000))) (np_ones_like lst) = Inr arr
           \<and> tolist arr = map (\<lambda>_. PyFloat (round_f64 (1 / 10000))) lst"
proof -
  from np_array_cases [OF assms] show ?thesis
  proof (elim disjE)
    assume "np_array lst = ObjArray lst"
    then show ?thesis
      by (simp add: np_ones_like_def np_rmultiply_def ufunc_def obj_loop_ones)
  next
    assume "np_array lst = Int64Array (map the_int lst)"
    then show ?thesis
      by (simp add: np_ones_like_def np_rmultiply_def ufunc_def oriented_def
          round_f64_one f64_mul_1e_4_one comp_def)
  next
    assume "np_array lst = UInt64Array (map the_int lst)"
    then show ?thesis
      by (simp add: np_ones_like_def np_rmultiply_def ufunc_def oriented_def
          round_f64_one f64_mul_1e_4_one comp_def)
  next
    assume "np_array lst = Float64Array (map to_f64 lst)"
    then show ?thesis
      by (simp add: np_ones_like_def np_rmultiply_def ufunc_def oriented_def
          f64_mul_1e_4_one comp_def)
  qed
qed

subsection \<open>Discrepancy variance\<close>

text \<open>
  Claim C2. For every coordinate sequence (a list of numbers: ints of any size and
  floats), \<open>get_md_var\<close> returns an array with one element per coordinate, every
  element being the float \<open>1e-4\<close>, whatever the iteration index and the parameter
  assignment are.
\<close>

theorem get_md_var_constant:
  assumes "\<forall>v \<in> set data_idx. \<not> is_str v"
  shows "\<exists>vals. get_md_var self emul_i par_set data_idx = Inr vals
     \<and> length (tolist vals) = length data_idx
     \<and> tolist vals = replicate (length data_idx) (PyFloat (round_f64 (1 / 10000)))
     \<and> set (tolist vals) \<subseteq> {PyFloat (round_f64 (1 / 10000))}"
proof -
  from assms have "\<not> list_ex is_str data_idx" by (simp add: list_ex_iff)
  from get_md_var_numeric [OF this] show ?thesis
    by (auto simp add: get_md_var_def map_replicate_const)
qed

theorem get_md_var_constant_witness:
  "\<not> is_str (PyInt 1) \<and> \<not> is_str (PyFloat (Fin 2.5)) \<and> \<not> is_str (PyInt (10 ^ 30))
   \<and> (\<exists>vals. get_md_var () 2 Map.empty [PyInt 1, PyFloat (Fin 2.5), PyInt (10 ^ 30)] = Inr vals
        \<and> tolist vals = [PyFloat (round_f64 (1 / 10000)), PyFloat (round_f64 (1 / 10000)),
             PyFloat (round_f64 (1 / 10000))])"
  using get_md_var_constant [of "[PyInt 1, PyFloat (Fin 2.5), PyInt (10 ^ 30)]" "()" 2 Map.empty]
  by auto

subsection \<open>The iteration index\<close>

text \<open>
  Claim C6. The iteration index is not used: for any two indices \<open>i1\<close> and \<open>i2\<close>,
  \<open>call_model\<close> returns the same for both, and so does \<open>get_md_var\<close>.
\<close>

theorem emul_i_unused:
  "call_model self i1 par_set data_idx = call_model self i2 par_set data_idx
   \<and> get_md_var self i1 par_set data_idx = get_md_var self i2 par_set data_idx"
  by (simp add: call_model_def get_md_var_def)

subsection \<open>Model evaluation\<close>

lemma round_f64_small:
  "round_f64 3 = Fin 3" "round_f64 (- 2) = Fin (- 2)" "round_f64 (- 3) = Fin (- 3)"
  "round_f64 (3 / 2) = Fin (3 / 2)" "round_f64 (5 / 2) = Fin (5 / 2)"
  "round_f64 (15 / 4) = Fin (15 / 4)" "round_f64 (9 / 2) = Fin (9 / 2)"
  "round_f64 (27 / 4) = Fin (27 / 4)" "round_f64 2 = Fin 2" "round_f64 5 = Fin 5"
  by (simp_all add: f64_eval)

lemma round_f64_zero: "round_f64 0 = Fin 0"
  by (simp add: round_f64_def)

text \<open>
  Claim C3. The example of the specification: for the coordinates \<open>[1, 2.5, -2]\<close> and
  the parameters \<open>A = 3\<close>, \<open>B = 1.5\<close>, \<open>call_model\<close> returns \<open>[4.5, 6.75, 0]\<close> and
  \<open>get_md_var\<close> returns \<open>[1e-4, 1e-4, 1e-4]\<close>. The literals \<open>1\<close>, \<open>-2\<close> and \<open>3\<close> are
  Python ints; the result is the same when \<open>A\<close> is the float \<open>3.0\<close>.
\<close>

theorem example_scenario:
  "call_model self emul_i [''A'' \<mapsto> PyInt 3, ''B'' \<mapsto> PyFloat (Fin 1.5)]
       [PyInt 1, PyFloat (Fin 2.5), PyInt (-2)]
     = Inr (Float64Array [Fin 4.5, Fin 6.75, Fin 0])
   \<and> call_model self emul_i [''A'' \<mapsto> PyFloat (Fin 3), ''B'' \<mapsto> PyFloat (Fin 1.5)]
       [PyInt 1, PyFloat (Fin 2.5), PyInt (-2)]
     = Inr (Float64Array [Fin 4.5, Fin 6.75, Fin 0])
   \<and> get_md_var self emul_i [''A'' \<mapsto> PyInt 3, ''B'' \<mapsto> PyFloat (Fin 1.5)]
       [PyInt 1, PyFloat (Fin 2.5), PyInt (-2)]
     = Inr (Float64Array [round_f64 (1 / 10000), round_f64 (1 / 10000), round_f64 (1 / 10000)])"
  by (simp add: call_model_def get_md_var_def getitem_def np_array_def np_ones_like_def
      np_multiply_def np_radd_def np_rmultiply_def ufunc_def oriented_def
      round_f64_one round_f64_small round_f64_zero f64_mul_1e_4_one)

text \<open>
  Claim C10. For the empty coordinate sequence, \<open>call_model\<close> and \<open>get_md_var\<close> both
  return an empty array, whatever the iteration index, provided the parameter
  assignment holds numbers (ints or floats) under \<open>'A'\<close> and \<open>'B'\<close>.
\<close>

theorem empty_coordinates:
  assumes "par_set ''A'' = Some a" and "par_set ''B'' = Some b"
    and "\<not> is_str a" and "\<not> is_str b"
  shows "(\<exists>vals. call_model self emul_i par_set [] = Inr vals \<and> tolist vals = [])
         \<and> get_md_var self emul_i par_set [] = Inr (Float64Array [])"
proof -
  have var: "get_md_var self emul_i par_set [] = Inr (Float64Array [])"
    by (simp add: get_md_var_def np_ones_like_def np_array_def np_rmultiply_def ufunc_def)
  have prod: "np_multiply (np_array []) b = Inr (ObjArray []) \<or>
      np_multiply (np_array []) b = Inr (Float64Array [])"
    using assms(4) by (cases b) (simp_all add: np_multiply_def np_array_def ufunc_def)
  have sum: "\<exists>vals. np_radd a arr = Inr vals \<and> tolist vals = []"
    if "arr = ObjArray [] \<or> arr = Float64Array []" for arr
    using that assms(3) by (cases a) (auto simp add: np_radd_def ufunc_def)
  from prod sum have "\<exists>vals. call_model self emul_i par_set [] = Inr vals \<and> tolist vals = []"
    using assms(1,2) by (auto simp add: call_model_def getitem_def)
  with var show ?thesis by blast
qed

theorem empty_coordinates_witness:
  "[''A'' \<mapsto> PyInt 3, ''B'' \<mapsto> PyFloat (Fin 1.5)] ''A'' = Some (PyInt 3)
   \<and> [''A'' \<mapsto> PyInt 3, ''B'' \<mapsto> PyFloat (Fin 1.5)] ''B'' = Some (PyFloat (Fin 1.5))
   \<and> \<not> is_str (PyInt 3) \<and> \<not> is_str (PyFloat (Fin 1.5))
   \<and> (\<exists>vals. call_model () 7 [''A'' \<mapsto> PyInt 3, ''B'' \<mapsto> PyFloat (Fin 1.5)] [] = Inr vals
        \<and> tolist vals = [])
   \<and> get_md_var () 7 [''A'' \<mapsto> PyInt 3, ''B'' \<mapsto> PyFloat (Fin 1.5)] [] = Inr (Float64Array [])"
  using empty_coordinates [of "[''A'' \<mapsto> PyInt 3, ''B'' \<mapsto> PyFloat (Fin 1.5)]"
      "PyInt 3" "PyFloat (Fin 1.5)" "()" 7]
  by simp

subsection \<open>The default dictionaries\<close>

text \<open>
  Claim C4. \<open>get_default_model_parameters\<close> always returns the same dictionary with
  exactly the two keys \<open>'A'\<close> and \<open>'B'\<close>: \<open>'A'\<close> has bounds \<open>-10\<close> and \<open>10\<close> and
  estimate \<open>3\<close>, \<open>'B'\<close> has bounds \<open>0\<close> and \<open>5\<close> and estimate \<open>1.5\<close>. Every value of
  the dictionary is a triple (lower, upper, estimate) with lower \<open>\<le>\<close> estimate
  \<open>\<le>\<close> upper.
\<close>

theorem default_parameters:
  "dom (get_default_model_parameters self) = {''A'', ''B''}
   \<and> get_default_model_parameters self ''A'' = Some [-10, 10, 3]
   \<and> get_default_model_parameters self ''B'' = Some [0, 5, 1.5]
   \<and> (\<forall>name v. get_default_model_parameters self name = Some v \<longrightarrow>
         (\<exists>lower upper estimate.
            v = [lower, upper, estimate] \<and> lower \<le> estimate \<and> estimate \<le> upper))"
proof -
  let ?d = "get_default_model_parameters self"
  have keys: "dom ?d = {''A'', ''B''}"
    by (auto simp add: get_default_model_parameters_def split: if_splits)
  have a: "?d ''A'' = Some [-10, 10, 3]" and b: "?d ''B'' = Some [0, 5, 1.5]"
    by (simp_all add: get_default_model_parameters_def)
  have bounds: "\<exists>lower upper estimate.
      v = [lower, upper, estimate] \<and> lower \<le> estimate \<and> estimate \<le> upper"
    if "?d name = Some v" for name v
  proof -
    from that keys have "name = ''A'' \<or> name = ''B''" by blast
    with that a b have "v = [-10, 10, 3] \<or> v = [0, 5, 1.5]"
      by (metis option.inject)
    moreover have "(-10::rat) \<le> 3 \<and> (3::rat) \<le> 10" by simp
    moreover have "(0::rat) \<le> 1.5 \<and> (1.5::rat) \<le> 5" by simp
    ultimately show ?thesis by blast
  qed
  from keys a b bounds show ?thesis by blast
qed

theorem default_parameters_witness:
  "get_default_model_parameters () ''B'' = Some [0, 5, 1.5]
   \<and> (\<exists>lower upper estimate.
         [0, 5, 1.5] = [lower, upper, estimate::rat] \<and> lower \<le> estimate \<and> estimate \<le> upper)"
proof -
  have h: "get_default_model_parameters () ''B'' = Some [0, 5, 1.5]"
    by (simp add: get_default_model_parameters_def)
  from default_parameters [of "()"] h show ?thesis by blast
qed

text \<open>
  Claim C5. \<open>get_default_model_data\<close> always returns the same dictionary with exactly
  three keys: \<open>1\<close> with value \<open>4.5\<close> and uncertainty \<open>0.1\<close>, \<open>2.5\<close> with \<open>6.8\<close> and
  \<open>0.1\<close>, \<open>-2\<close> with \<open>0\<close> and \<open>0.1\<close>. Every value of the dictionary is a pair
  (observed value, uncertainty) whose uncertainty is not negative.
\<close>

theorem default_data:
  "dom (get_default_model_data self) = {1, 2.5, -2}
   \<and> card (dom (get_default_model_data self)) = 3
   \<and> get_default_model_data self 1 = Some [4.5, 0.1]
   \<and> get_default_model_data self 2.5 = Some [6.8, 0.1]
   \<and> get_default_model_data self (-2) = Some [0, 0.1]
   \<and> (\<forall>coordinate v. get_default_model_data self coordinate = Some v \<longrightarrow>
         (\<exists>observed uncertainty. v = [observed, uncertainty] \<and> 0 \<le> uncertainty))"
proof -
  let ?d = "get_default_model_data self"
  have keys: "dom ?d = {1, 2.5, -2}"
    by (auto simp add: get_default_model_data_def split: if_splits)
  have three: "card {1, 2.5, -2 :: rat} = 3" by simp
  have e1: "?d 1 = Some [4.5, 0.1]" and e2: "?d 2.5 = Some [6.8, 0.1]"
    and e3: "?d (-2) = Some [0, 0.1]"
    by (simp_all add: get_default_model_data_def)
  have unc: "\<exists>observed uncertainty. v = [observed, uncertainty] \<and> 0 \<le> uncertainty"
    if "?d coordinate = Some v" for coordinate v
  proof -
    from that keys have "coordinate = 1 \<or> coordinate = 2.5 \<or> coordinate = -2" by blast
    with that e1 e2 e3 have "v = [4.5, 0.1] \<or> v = [6.8, 0.1] \<or> v = [0, 0.1]"
      by (metis option.inject)
    moreover have "(0::rat) \<le> 0.1" by simp
    ultimately show ?thesis by blast
  qed
  from keys three e1 e2 e3 unc show ?thesis by (simp only:) blast
qed

theorem default_data_witness:
  "get_default_model_data () 2.5 = Some [6.8, 0.1]
   \<and> (\<exists>observed uncertainty. [6.8, 0.1] = [observed, uncertainty::rat] \<and> 0 \<le> uncertainty)"
proof -
  have h: "get_default_model_data () 2.5 = Some [6.8, 0.1]"
    by (simp add: get_default_model_data_def)
  from default_data [of "()"] h show ?thesis by blast
qed

subsection \<open>Construction\<close>

text \<open>
  Claim C9. Constructing a \<open>LineLink\<close> passes the positional and the keyword
  arguments on to the constructor of the base class, unchanged, and does nothing
  else: for every base constructor, the outcome of \<open>LineLink.__init__\<close> (the
  initialised object, or the exception raised) is the outcome of the base constructor
  on the same object and arguments.
\<close>

theorem init_forwards_arguments:
  "LineLink_init ModelLink_init self args kwargs = ModelLink_init self args kwargs"
  by (simp add: LineLink_init_def)

end
